theory Spec2Isabelle
  imports Complex_Main "HOL-Library.Log_Nat"
begin

section \<open>Climate statistics: missing-data handling and aggregation\<close>

text \<open>
  A shallow embedding of the computational core of
  \<^verbatim>\<open>msc_pygeoapi/process/cccs/climate_stats.py\<close> (and of the script
  \<^verbatim>\<open>test.py\<close> beside it, which repeats the same functions):
  \<^verbatim>\<open>calculate_missing_data\<close>, \<^verbatim>\<open>calculate_missing_days\<close>,
  \<^verbatim>\<open>calculate_consecutive_missing_days\<close>, \<^verbatim>\<open>check_missing_data_options\<close>,
  \<^verbatim>\<open>calculate_statistics\<close> and the part of \<^verbatim>\<open>climate_stats\<close> that calls them.

  Conventions. An observation value is \<open>rat option\<close>: \<open>None\<close> is Python's \<open>None\<close>,
  \<open>Some q\<close> the double with the exact value \<open>q\<close> (every finite float is a rational, and
  an integer below \<^verbatim>\<open>2 ** 53\<close> is the same number as a double).
  Counters that start at 0 and only grow by 1 are \<open>nat\<close>; integers supplied by a
  caller are \<open>int\<close>. Every exception of the source is a
  value of the type \<open>error\<close>, returned as \<open>Inl\<close>. Each \<^verbatim>\<open>try: ... except Exception as e:
  print(...); raise\<close> wrapper of the source prints and raises the same exception again, so
  it does not change the result and is not repeated in the model.
\<close>

subsection \<open>Data\<close>

datatype error = ZeroDivisionError | TypeError | NameError | UnboundLocalError

text \<open>
  The value given as \<^verbatim>\<open>input_missing_data_option\<close>: \<^verbatim>\<open>None\<close>, an integer or a string.
\<close>

datatype pyval = PyNone | PyInt int | PyStr string

text \<open>
  The argument \<^verbatim>\<open>data\<close> of the two counting functions. Python does not fix its type:
  the functions iterate over it, and \<^verbatim>\<open>climate_stats\<close> calls one of them with a list
  and the other with an integer.
\<close>

datatype 'a data = DataList "'a option list" | DataInt int

text \<open>
  One element of \<^verbatim>\<open>es_hits\<close>, reduced to what the core reads:
  \<^verbatim>\<open>hit['_source']['properties'][property]\<close>, the two station properties and
  \<^verbatim>\<open>hit['_source']['geometry']['coordinates']\<close>.
\<close>

record hit =
  field_value :: "rat option"
  STATION_NAME :: string
  STN_ID :: int
  coordinates :: "rat list"

subsection \<open>Counting missing values\<close>

text \<open>
  \<^verbatim>\<open>
  missing_data_count = 0
  for hit in es_hits:
      field_value = hit['_source']['properties'][data_field]
      if field_value is None:
          missing_data_count += 1
  return missing_data_count
  \<close>
\<close>

fun missing_data_loop :: "hit list \<Rightarrow> nat \<Rightarrow> nat" where
  "missing_data_loop [] missing_data_count = missing_data_count"
| "missing_data_loop (h # hs) missing_data_count =
     missing_data_loop hs
       (if field_value h = None then missing_data_count + 1 else missing_data_count)"

definition calculate_missing_data :: "hit list \<Rightarrow> nat" where
  "calculate_missing_data es_hits = missing_data_loop es_hits 0"

text \<open>
  \<^verbatim>\<open>
  missing_days = 0
  for value in data:
      if value is None:
          missing_days += 1
  return missing_days
  \<close>
  Iterating over an integer raises \<^verbatim>\<open>TypeError\<close> (\<^verbatim>\<open>'int' object is not iterable\<close>).
\<close>

fun missing_days_loop :: "'a option list \<Rightarrow> nat \<Rightarrow> nat" where
  "missing_days_loop [] missing_days = missing_days"
| "missing_days_loop (v # vs) missing_days =
     missing_days_loop vs (if v = None then missing_days + 1 else missing_days)"

fun calculate_missing_days :: "'a data \<Rightarrow> error + nat" where
  "calculate_missing_days (DataList vs) = Inr (missing_days_loop vs 0)"
| "calculate_missing_days (DataInt n) = Inl TypeError"

text \<open>
  \<^verbatim>\<open>
  consecutive_missing_days = 0
  max_consecutive_missing_days = 0
  for value in data:
      if value is None:
          consecutive_missing_days += 1
          max_consecutive_missing_days = max(max_consecutive_missing_days,
                                             consecutive_missing_days)
      else:
          consecutive_missing_days = 0
  return max_consecutive_missing_days
  \<close>
  The loop state is the pair of counters.
\<close>

fun consecutive_loop :: "'a option list \<Rightarrow> nat \<Rightarrow> nat \<Rightarrow> nat" where
  "consecutive_loop [] consecutive_missing_days max_consecutive_missing_days =
     max_consecutive_missing_days"
| "consecutive_loop (v # vs) consecutive_missing_days max_consecutive_missing_days =
     (if v = None
      then consecutive_loop vs (consecutive_missing_days + 1)
             (max max_consecutive_missing_days (consecutive_missing_days + 1))
      else consecutive_loop vs 0 max_consecutive_missing_days)"

fun calculate_consecutive_missing_days :: "'a data \<Rightarrow> error + nat" where
  "calculate_consecutive_missing_days (DataList vs) = Inr (consecutive_loop vs 0 0)"
| "calculate_consecutive_missing_days (DataInt n) = Inl TypeError"

subsection \<open>Classification against the missing-data option\<close>

text \<open>
  \<^verbatim>\<open>check_missing_data_options\<close> of \<^verbatim>\<open>climate_stats.py\<close>. Its second parameter is
  named \<^verbatim>\<open>missing_data_percentage\<close>, while the message of the three percentage
  branches formats \<^verbatim>\<open>{percentage_missing_data}\<close>, a name bound nowhere in that module:
  building the message raises \<^verbatim>\<open>NameError\<close>. When no branch of the \<^verbatim>\<open>if\<close>/\<^verbatim>\<open>elif\<close>
  chain is taken, \<^verbatim>\<open>missing_data_option_status\<close> is never assigned and the
  \<^verbatim>\<open>return\<close> raises \<^verbatim>\<open>UnboundLocalError\<close>. Comparing a number with \<open>>\<close> is exact in
  Python, also between a float and an integer. The three percentage branches compare with
  \<^verbatim>\<open>input_missing_data_option\<close>, which in each of them equals the branch's integer.
\<close>

definition check_missing_data_options ::
    "pyval \<Rightarrow> rat \<Rightarrow> int \<Rightarrow> int \<Rightarrow> error + string" where
  "check_missing_data_options input_missing_data_option missing_data_percentage
       missing_days consecutive_missing_days =
     (if input_missing_data_option = PyNone then Inr ''None''
      else if input_missing_data_option = PyInt 5
        then (if missing_data_percentage > 5 then Inl NameError else Inr ''OK'')
      else if input_missing_data_option = PyInt 10
        then (if missing_data_percentage > 10 then Inl NameError else Inr ''OK'')
      else if input_missing_data_option = PyInt 15
        then (if missing_data_percentage > 15 then Inl NameError else Inr ''OK'')
      else if input_missing_data_option = PyStr ''WMO''
        then (if missing_days = 0 \<or> consecutive_missing_days = 0 then Inr ''OK''
              else let missing_days_threshold = 11;
                       consecutive_missing_days_threshold = 5
                   in if missing_days \<ge> missing_days_threshold
                         \<or> consecutive_missing_days \<ge> consecutive_missing_days_threshold
                      then Inr ''WMO criteria met: Missing or invalid month''
                      else Inr ''OK'')
      else Inl UnboundLocalError)"

text \<open>
  The same function in \<^verbatim>\<open>test.py\<close>, where the parameter itself is named
  \<^verbatim>\<open>percentage_missing_data\<close>, so that the message is built. The text Python
  prints for a float is built into the language and not part of the repository: it is the
  parameter \<open>float_str\<close>. In each percentage branch the option equals the branch's integer,
  which \<^verbatim>\<open>{input_missing_data_option}\<close> prints in decimal.
\<close>

definition filtered_message :: "string \<Rightarrow> string \<Rightarrow> string" where
  "filtered_message percentage_text option_text =
     ''The input missing data option filtered this result: percentage missing data > input missing data option: ''
       @ percentage_text @ '' > '' @ option_text"

definition check_missing_data_options_test ::
    "(rat \<Rightarrow> string) \<Rightarrow> pyval \<Rightarrow> rat \<Rightarrow> int \<Rightarrow> int \<Rightarrow> error + string" where
  "check_missing_data_options_test float_str input_missing_data_option percentage_missing_data
       missing_days consecutive_missing_days =
     (if input_missing_data_option = PyNone then Inr ''None''
      else if input_missing_data_option = PyInt 5
        then (if percentage_missing_data > 5
              then Inr (filtered_message (float_str percentage_missing_data) ''5'')
              else Inr ''OK'')
      else if input_missing_data_option = PyInt 10
        then (if percentage_missing_data > 10
              then Inr (filtered_message (float_str percentage_missing_data) ''10'')
              else Inr ''OK'')
      else if input_missing_data_option = PyInt 15
        then (if percentage_missing_data > 15
              then Inr (filtered_message (float_str percentage_missing_data) ''15'')
              else Inr ''OK'')
      else if input_missing_data_option = PyStr ''WMO''
        then (if missing_days = 0 \<or> consecutive_missing_days = 0 then Inr ''OK''
              else let missing_days_threshold = 11;
                       consecutive_missing_days_threshold = 5
                   in if missing_days \<ge> missing_days_threshold
                         \<or> consecutive_missing_days \<ge> consecutive_missing_days_threshold
                      then Inr ''WMO criteria met: Missing or invalid month''
                      else Inr ''OK'')
      else Inl UnboundLocalError)"

subsection \<open>Rounding\<close>

text \<open>
  Python's \<^verbatim>\<open>round(x, 2)\<close> on a float rounds the exact value of \<open>x\<close> to the nearest
  multiple of \<open>1/100\<close>, a tie going to the even multiple, and returns the float nearest
  to that decimal. \<open>round2\<close> returns the decimal itself.
\<close>

definition round_half_even :: "rat \<Rightarrow> int" where
  "round_half_even q =
     (let f = \<lfloor>q\<rfloor>; d = q - of_int f
      in if d < 1 / 2 then f
         else if d > 1 / 2 then f + 1
         else if even f then f else f + 1)"

definition round2 :: "rat \<Rightarrow> rat" where
  "round2 q = of_int (round_half_even (q * 100)) / 100"

text \<open>
  Python rounds the result of each arithmetic operation on floats, and of \<^verbatim>\<open>/\<close> on
  integers, to a double: \<open>fl q\<close> is the binary
  floating-point number with a 53-bit significand nearest to \<open>q\<close>, ties to the even
  significand. The exponent range is not bounded, so \<open>fl\<close> is the double-precision result
  for magnitudes between \<^verbatim>\<open>2 ** -1022\<close> and \<^verbatim>\<open>2 ** 1024\<close>. \<open>binade q\<close> is the
  integer \<open>k\<close> with \<open>pow2 k \<le> \<bar>q\<bar> < pow2 (k + 1)\<close>.
\<close>

definition pow2 :: "int \<Rightarrow> rat" where
  "pow2 e = (if e \<ge> 0 then 2 ^ nat e else 1 / 2 ^ nat (- e))"

definition binade :: "rat \<Rightarrow> int" where
  "binade q =
     (let (a, b) = quotient_of \<bar>q\<bar>; k = bitlen a - bitlen b
      in if \<bar>q\<bar> < pow2 k then k - 1 else k)"

definition fl :: "rat \<Rightarrow> rat" where
  "fl q = (if q = 0 then 0
           else let e = binade q - 52
                in of_int (round_half_even (q / pow2 e)) * pow2 e)"

text \<open>The greatest relative error of \<open>fl\<close>.\<close>

definition unit_roundoff :: rat where
  "unit_roundoff = 1 / 2 ^ 53"

text \<open>
  \<^verbatim>\<open>a / b\<close> on two integers: \<^verbatim>\<open>ZeroDivisionError\<close> when \<open>b\<close> is 0, else the double
  nearest to the quotient.
\<close>

definition py_truediv :: "int \<Rightarrow> int \<Rightarrow> error + rat" where
  "py_truediv a b = (if b = 0 then Inl ZeroDivisionError else Inr (fl (of_int a / of_int b)))"

subsection \<open>The missing-data part of \<^verbatim>\<open>climate_stats\<close>\<close>

text \<open>
  \<^verbatim>\<open>
  valuesResultsList = []
  for hit in es_hits:
      field_value = hit['_source']['properties'][property]
      valuesResultsList.append(field_value)
  \<close>
\<close>

definition valuesResultsList :: "hit list \<Rightarrow> rat option list" where
  "valuesResultsList es_hits = map field_value es_hits"

text \<open>
  \<^verbatim>\<open>
  missing_data = calculate_missing_data(es_hits, property)
  missing_data_percentage = round(((missing_data / es_count) * 100), 2)
  \<close>
  where \<^verbatim>\<open>es_count\<close> is \<^verbatim>\<open>es_result['hits']['total']['value']\<close>, an integer the search
  returns beside the hits.
\<close>

definition missing_data_percentage :: "hit list \<Rightarrow> int \<Rightarrow> error + rat" where
  "missing_data_percentage es_hits es_count =
     (let missing_data = calculate_missing_data es_hits
      in case py_truediv (int missing_data) es_count of
           Inl e \<Rightarrow> Inl e
         | Inr ratio \<Rightarrow> Inr (round2 (fl (ratio * 100))))"

text \<open>
  \<^verbatim>\<open>
  missing_days = calculate_missing_days(valuesResultsList)
  consecutive_missing_days = calculate_consecutive_missing_days(missing_days)
  missingParameters = check_missing_data_options(
      missing_data_option, missing_data_percentage, missing_days, consecutive_missing_days)
  \<close>
  The second call is given the integer \<^verbatim>\<open>missing_days\<close>. The result of the model is
  \<^verbatim>\<open>missingParameters\<close>, or the exception that ends \<^verbatim>\<open>climate_stats\<close>.
\<close>

definition missing_data_handling :: "hit list \<Rightarrow> int \<Rightarrow> pyval \<Rightarrow> error + string" where
  "missing_data_handling es_hits es_count missing_data_option =
     (case missing_data_percentage es_hits es_count of
        Inl e \<Rightarrow> Inl e
      | Inr percentage \<Rightarrow>
         (case calculate_missing_days (DataList (valuesResultsList es_hits)) of
            Inl e \<Rightarrow> Inl e
          | Inr missing_days \<Rightarrow>
             (case calculate_consecutive_missing_days (DataInt (int missing_days) :: rat data) of
                Inl e \<Rightarrow> Inl e
              | Inr consecutive_missing_days \<Rightarrow>
                 check_missing_data_options missing_data_option percentage
                   (int missing_days) (int consecutive_missing_days))))"

subsection \<open>Statistics\<close>

text \<open>
  The dictionary \<^verbatim>\<open>calculate_statistics\<close> returns, one field for each key. A field that
  holds Python's \<^verbatim>\<open>None\<close> is \<open>None\<close>.
\<close>

record statistics =
  total_stat :: nat
  mean_stat :: "rat option"
  max_stat :: "rat option"
  min_stat :: "rat option"
  threshold_stat :: rat
  count_above :: "nat option"
  count_below :: "nat option"
  count_equal :: "nat option"

text \<open>
  The argument \<^verbatim>\<open>calculations\<close>. The docstring calls it a list of names, and the request
  handler passes on what the request holds; the command line passes one string. The test
  \<^verbatim>\<open>name in calculations\<close> is membership for a list and a substring test for a string.
\<close>

datatype calculations = CalcList "string list" | CalcStr string

fun is_substring :: "string \<Rightarrow> string \<Rightarrow> bool" where
  "is_substring name [] = (name = [])"
| "is_substring name (c # cs) = (take (length name) (c # cs) = name \<or> is_substring name cs)"

fun requested :: "string \<Rightarrow> calculations \<Rightarrow> bool" where
  "requested name (CalcList names) = (name \<in> set names)"
| "requested name (CalcStr text) = is_substring name text"

text \<open>
  The built-in functions \<^verbatim>\<open>sum\<close>, \<^verbatim>\<open>max\<close> and \<^verbatim>\<open>min\<close> as the loops they run:
  \<^verbatim>\<open>sum\<close> adds each item to a result that starts at 0; \<^verbatim>\<open>max\<close> keeps the first
  item and replaces it by each later item that is greater (\<^verbatim>\<open>min\<close>: smaller). Both
  \<^verbatim>\<open>max\<close> and \<^verbatim>\<open>min\<close> are called on a non-empty list only, whose head and tail are
  their two arguments here. \<open>py_sum\<close> is the sum of integers, which is exact.
  \<open>float_sum\<close> is the sum of doubles: every addition is rounded to a double, in the order
  of the list (CPython up to 3.11; from 3.12 on \<^verbatim>\<open>sum\<close> carries a compensation term).
\<close>

fun py_sum_loop :: "'a::monoid_add list \<Rightarrow> 'a \<Rightarrow> 'a" where
  "py_sum_loop [] result = result"
| "py_sum_loop (item # items) result = py_sum_loop items (result + item)"

definition py_sum :: "'a::monoid_add list \<Rightarrow> 'a" where
  "py_sum items = py_sum_loop items 0"

fun float_sum_loop :: "rat list \<Rightarrow> rat \<Rightarrow> rat" where
  "float_sum_loop [] result = result"
| "float_sum_loop (item # items) result = float_sum_loop items (fl (result + item))"

definition float_sum :: "rat list \<Rightarrow> rat" where
  "float_sum items = float_sum_loop items 0"

fun py_max :: "rat \<Rightarrow> rat list \<Rightarrow> rat" where
  "py_max maxval [] = maxval"
| "py_max maxval (item # items) = py_max (if item > maxval then item else maxval) items"

fun py_min :: "rat \<Rightarrow> rat list \<Rightarrow> rat" where
  "py_min minval [] = minval"
| "py_min minval (item # items) = py_min (if item < minval then item else minval) items"

text \<open>
  \<^verbatim>\<open>
  values_results_list = [value for value in values_results_list if value is not None]
  if values_results_list:
      if "mean" in calculations:
          mean_value = round(sum(values_results_list) / len(values_results_list), 2)
      if "max" in calculations:
          highest_value = max(values_results_list)
      if "min" in calculations:
          lowest_value = min(values_results_list)
      if "count above threshold" in calculations:
          count_higher = sum(1 for value in values_results_list
                             if value > manual_value_threshold)
      ...
  else:
      mean_value = highest_value = ... = count_equal = None
  \<close>
  The mean is computed in doubles: the sum of the values, its quotient by their number
  rounded to a double, and that rounded to two decimals.
\<close>

definition calculate_statistics ::
    "calculations \<Rightarrow> rat option list \<Rightarrow> rat \<Rightarrow> statistics" where
  "calculate_statistics calculations values_results_list manual_value_threshold =
     (let values = map the (filter (\<lambda>value. value \<noteq> None) values_results_list)
      in case values of
           [] \<Rightarrow>
             \<lparr>total_stat = length values, mean_stat = None, max_stat = None, min_stat = None,
              threshold_stat = manual_value_threshold,
              count_above = None, count_below = None, count_equal = None\<rparr>
         | first # others \<Rightarrow>
             \<lparr>total_stat = length values,
              mean_stat =
                (if requested ''mean'' calculations
                 then Some (round2 (fl (float_sum values / of_nat (length values))))
                 else None),
              max_stat =
                (if requested ''max'' calculations then Some (py_max first others) else None),
              min_stat =
                (if requested ''min'' calculations then Some (py_min first others) else None),
              threshold_stat = manual_value_threshold,
              count_above =
                (if requested ''count above threshold'' calculations
                 then Some (py_sum (map (\<lambda>value. 1)
                        (filter (\<lambda>value. value > manual_value_threshold) values)))
                 else None),
              count_below =
                (if requested ''count below threshold'' calculations
                 then Some (py_sum (map (\<lambda>value. 1)
                        (filter (\<lambda>value. value < manual_value_threshold) values)))
                 else None),
              count_equal =
                (if requested ''count equal threshold'' calculations
                 then Some (py_sum (map (\<lambda>value. 1)
                        (filter (\<lambda>value. value = manual_value_threshold) values)))
                 else None)\<rparr>)"

subsection \<open>Unique stations and the result of \<^verbatim>\<open>climate_stats\<close>\<close>

text \<open>
  \<^verbatim>\<open>
  unique_stations = []
  for hit in es_hits:
      station_info = (hit["_source"]["properties"]["STATION_NAME"],
                      hit["_source"]["properties"]["STN_ID"],
                      hit["_source"]["geometry"]["coordinates"])
      if station_info not in unique_stations:
          unique_stations.append(station_info)
  \<close>
  \<^verbatim>\<open>not in\<close> compares with \<^verbatim>\<open>==\<close>, which on a tuple of a string, an integer and a
  list of numbers is equality of all components.
\<close>

type_synonym station = "string \<times> int \<times> rat list"

definition station_info :: "hit \<Rightarrow> station" where
  "station_info h = (STATION_NAME h, STN_ID h, coordinates h)"

fun unique_stations_loop :: "'a list \<Rightarrow> 'a list \<Rightarrow> 'a list" where
  "unique_stations_loop [] unique_stations = unique_stations"
| "unique_stations_loop (info # infos) unique_stations =
     unique_stations_loop infos
       (if info \<notin> set unique_stations then unique_stations @ [info] else unique_stations)"

text \<open>
  The loop is not a function of its own: it is written inside \<^verbatim>\<open>climate_stats\<close>, after
  the missing-data part and under a guard.
  \<^verbatim>\<open>
  unique_stations = None
  ...                                   # the missing-data part
  if valuesResultsList:
      unique_stations = []
      for hit in es_hits: ...           # the loop above
      statistics_result = calculate_statistics(calculations, valuesResultsList, threshold)
  output_info = { ..., "MISSING_DATA_STATUS": missingParameters,
                  "UNIQUE_STATIONS_COUNT": len(unique_stations) }
  output_geojson = create_geojson_with_stats(unique_stations, statistics_result, output_info)
  \<close>
  \<open>climate_stats\<close> is the function from the search result on: its arguments here are the
  hits and the total the search returned, and the three inputs the core reads. What it
  returns is reduced to the status of the missing-data part, the stations and the
  statistics. An exception of the missing-data part ends the function before the block of
  the stations starts. When the guard skips the block, \<^verbatim>\<open>unique_stations\<close> is still
  \<^verbatim>\<open>None\<close> and \<^verbatim>\<open>len(unique_stations)\<close> raises \<^verbatim>\<open>TypeError\<close>.
\<close>

record geojson =
  MISSING_DATA_STATUS :: string
  UNIQUE_STATIONS_COUNT :: nat
  global_stats :: statistics
  features :: "station list"

definition climate_stats ::
    "hit list \<Rightarrow> int \<Rightarrow> calculations \<Rightarrow> rat \<Rightarrow> pyval \<Rightarrow> error + geojson" where
  "climate_stats es_hits es_count calculations threshold missing_data_option =
     (case missing_data_handling es_hits es_count missing_data_option of
        Inl e \<Rightarrow> Inl e
      | Inr missingParameters \<Rightarrow>
         (if valuesResultsList es_hits \<noteq> []
          then let unique_stations = unique_stations_loop (map station_info es_hits) [];
                   statistics_result =
                     calculate_statistics calculations (valuesResultsList es_hits) threshold
               in Inr \<lparr>MISSING_DATA_STATUS = missingParameters,
                       UNIQUE_STATIONS_COUNT = length unique_stations,
                       global_stats = statistics_result,
                       features = unique_stations\<rparr>
          else Inl TypeError))"

section \<open>Notions of the specification\<close>

text \<open>
  The lengths of the maximal runs of \<open>None\<close> in a sequence, in order: a run starts at a
  \<open>None\<close> that follows a value (or starts the sequence) and takes every \<open>None\<close> up to
  the next value.
\<close>

function run_lengths :: "'a option list \<Rightarrow> nat list" where
  "run_lengths [] = []"
| "run_lengths (Some x # vs) = run_lengths vs"
| "run_lengths (None # vs) =
     Suc (length (takeWhile (\<lambda>v. v = None) vs)) # run_lengths (dropWhile (\<lambda>v. v = None) vs)"
  by pat_completeness auto
termination
  by (relation "measure length") (auto simp: less_Suc_eq_le length_dropWhile_le)

text \<open>
  A sequence written as values \<open>pre\<close>, then for each block \<open>(a, sep)\<close> a run of \<open>a\<close>
  missing entries and the values \<open>sep\<close> after it. The runs are apart when every block but
  the last has at least one value after its run.
\<close>

fun runs_seq :: "'a list \<Rightarrow> (nat \<times> 'a list) list \<Rightarrow> 'a option list" where
  "runs_seq pre [] = map Some pre"
| "runs_seq pre ((a, sep) # blocks) = map Some pre @ replicate a None @ runs_seq sep blocks"

fun separated :: "(nat \<times> 'a list) list \<Rightarrow> bool" where
  "separated [] = True"
| "separated [b] = True"
| "separated ((a, sep) # b # blocks) = (sep \<noteq> [] \<and> separated (b # blocks))"

text \<open>The position at which \<open>x\<close> is first seen in \<open>xs\<close> (the length of \<open>xs\<close> if never).\<close>

definition first_seen :: "'a list \<Rightarrow> 'a \<Rightarrow> nat" where
  "first_seen xs x = length (takeWhile (\<lambda>y. y \<noteq> x) xs)"

text \<open>
  The distinct elements of a sequence, each kept where it is first seen: the head, then
  the first occurrences of the rest without the head.
\<close>

fun first_occurrences :: "'a list \<Rightarrow> 'a list" where
  "first_occurrences [] = []"
| "first_occurrences (x # xs) = x # filter (\<lambda>y. y \<noteq> x) (first_occurrences xs)"

section \<open>Properties of the loops\<close>

subsection \<open>Counting and runs\<close>

lemma missing_days_loop_count:
  "missing_days_loop vs n = n + length (filter (\<lambda>v. v = None) vs)"
  by (induction vs arbitrary: n) auto

lemma missing_days_loop_zero_iff:
  "missing_days_loop vs n = 0 \<longleftrightarrow> n = 0 \<and> None \<notin> set vs"
  by (induction vs arbitrary: n) auto

lemma consecutive_loop_zero_iff:
  "consecutive_loop vs c m = 0 \<longleftrightarrow> m = 0 \<and> None \<notin> set vs"
  by (induction vs arbitrary: c m) auto

lemma consecutive_loop_max:
  "consecutive_loop vs c m = max m (consecutive_loop vs c 0)"
proof (induction vs arbitrary: c m)
  case Nil
  then show ?case by simp
next
  case (Cons v vs)
  show ?case
  proof (cases "v = None")
    case True
    have "consecutive_loop (v # vs) c m = consecutive_loop vs (c + 1) (max m (c + 1))"
      using True by simp
    also have "\<dots> = max (max m (c + 1)) (consecutive_loop vs (c + 1) 0)"
      by (rule Cons.IH)
    also have "\<dots> = max m (max (c + 1) (consecutive_loop vs (c + 1) 0))"
      by (simp add: max.assoc)
    also have "max (c + 1) (consecutive_loop vs (c + 1) 0) = consecutive_loop vs (c + 1) (c + 1)"
      by (rule Cons.IH [symmetric])
    also have "consecutive_loop vs (c + 1) (c + 1) = consecutive_loop (v # vs) c 0"
      using True by simp
    finally show ?thesis .
  next
    case False
    then obtain y where "v = Some y" by auto
    then show ?thesis using Cons.IH [of 0 m] by simp
  qed
qed

lemma consecutive_loop_replicate:
  "consecutive_loop (replicate a None @ vs) c m =
     consecutive_loop vs (c + a) (if a = 0 then m else max m (c + a))"
proof (induction a arbitrary: c m)
  case 0
  then show ?case by simp
next
  case (Suc a)
  then show ?case by (cases a) (simp_all add: max.assoc)
qed

lemma consecutive_loop_Some:
  "consecutive_loop (map Some (x # xs) @ vs) c m = consecutive_loop vs 0 m"
  by (induction xs arbitrary: x c) simp_all

lemma consecutive_loop_no_leading:
  "vs = [] \<or> hd vs \<noteq> None \<Longrightarrow> consecutive_loop vs c m = consecutive_loop vs 0 m"
  by (cases vs) auto

lemma dropWhile_no_leading:
  "dropWhile (\<lambda>v. v = None) vs = [] \<or> hd (dropWhile (\<lambda>v. v = None) vs) \<noteq> None"
  using hd_dropWhile [of "\<lambda>v. v = None" vs] by blast

lemma takeWhile_None_replicate:
  "takeWhile (\<lambda>v. v = None) vs = replicate (length (takeWhile (\<lambda>v. v = None) vs)) None"
  by (induction vs) auto

lemma Max_zero_Cons:
  "Max (set (0 # a # xs)) = max a (Max (set (0 # xs)))" for a :: nat
proof -
  have "set (0 # a # xs) = insert a (insert 0 (set xs))"
    by auto
  moreover have "Max (insert a (insert 0 (set xs))) = max a (Max (insert 0 (set xs)))"
    by (rule Max_insert) auto
  ultimately show ?thesis by simp
qed

lemma consecutive_loop_run_lengths:
  "consecutive_loop vs 0 0 = Max (set (0 # run_lengths vs))"
proof (induction vs rule: run_lengths.induct)
  case 1
  then show ?case by simp
next
  case (2 x vs)
  then show ?case by simp
next
  case (3 vs)
  define k where "k = length (takeWhile (\<lambda>v. v = None) vs)"
  define rest where "rest = dropWhile (\<lambda>v. v = None) vs"
  have split: "vs = replicate k None @ rest"
    unfolding k_def rest_def
    using takeWhile_dropWhile_id [of "\<lambda>v. v = None" vs] takeWhile_None_replicate [of vs]
    by simp
  have "consecutive_loop (None # vs) 0 0 = consecutive_loop vs 1 1"
    by simp
  also have "\<dots> = consecutive_loop (replicate k None @ rest) 1 1"
    using split by simp
  also have "\<dots> = consecutive_loop rest (Suc k) (Suc k)"
    by (simp add: consecutive_loop_replicate)
  also have "\<dots> = consecutive_loop rest 0 (Suc k)"
    unfolding rest_def by (rule consecutive_loop_no_leading) (rule dropWhile_no_leading)
  also have "\<dots> = max (Suc k) (consecutive_loop rest 0 0)"
    by (rule consecutive_loop_max)
  also have "consecutive_loop rest 0 0 = Max (set (0 # run_lengths rest))"
    unfolding rest_def by (rule "3.IH")
  finally have "consecutive_loop (None # vs) 0 0 = max (Suc k) (Max (set (0 # run_lengths rest)))" .
  also have "\<dots> = Max (set (0 # Suc k # run_lengths rest))"
    by (rule Max_zero_Cons [symmetric])
  finally show ?case
    by (simp add: k_def rest_def)
qed

lemma consecutive_loop_Some_reset:
  "consecutive_loop (map Some xs @ vs) 0 m = consecutive_loop vs 0 m"
  by (induction xs) simp_all

lemma runs_seq_pre:
  "runs_seq pre blocks = map Some pre @ runs_seq [] blocks"
  by (cases blocks) auto

lemma consecutive_loop_runs_seq_reset:
  assumes "sep \<noteq> []"
  shows "consecutive_loop (runs_seq sep blocks) c m = consecutive_loop (runs_seq sep blocks) 0 m"
proof -
  from assms obtain y ys where sep: "sep = y # ys"
    by (cases sep) auto
  have "consecutive_loop (map Some (y # ys) @ runs_seq [] blocks) c m =
        consecutive_loop (map Some (y # ys) @ runs_seq [] blocks) 0 m"
    by (simp only: consecutive_loop_Some)
  then show ?thesis
    using runs_seq_pre [of sep blocks] sep by simp
qed

lemma consecutive_loop_runs_seq:
  "separated blocks \<Longrightarrow>
     consecutive_loop (runs_seq pre blocks) 0 m = max m (Max (set (0 # map fst blocks)))"
proof (induction blocks arbitrary: pre m)
  case Nil
  then show ?case
    using consecutive_loop_Some_reset [of pre "[]" m] by simp
next
  case (Cons b blocks)
  obtain a sep where b: "b = (a, sep)" by (cases b)
  have step: "consecutive_loop (runs_seq pre (b # blocks)) 0 m =
      consecutive_loop (runs_seq sep blocks) a (max m a)"
    by (simp add: b consecutive_loop_Some_reset consecutive_loop_replicate)
  have tail: "consecutive_loop (runs_seq sep blocks) a (max m a) =
      max (max m a) (Max (set (0 # map fst blocks)))"
  proof (cases blocks)
    case Nil
    then show ?thesis
      using consecutive_loop_Some_reset [of sep "[]" "max m a"]
        consecutive_loop_runs_seq_reset [of sep "[]" a "max m a"]
      by (cases "sep = []") simp_all
  next
    case (Cons b' blocks')
    with Cons.prems b have sep: "sep \<noteq> []" and rest: "separated blocks"
      by simp_all
    have "consecutive_loop (runs_seq sep blocks) a (max m a) =
        consecutive_loop (runs_seq sep blocks) 0 (max m a)"
      using sep by (rule consecutive_loop_runs_seq_reset)
    also have "\<dots> = max (max m a) (Max (set (0 # map fst blocks)))"
      using rest by (rule Cons.IH)
    finally show ?thesis .
  qed
  have "max (max m a) (Max (set (0 # map fst blocks))) =
      max m (max a (Max (set (0 # map fst blocks))))"
    by (simp add: max.assoc)
  also have "\<dots> = max m (Max (set (0 # a # map fst blocks)))"
    by (simp only: Max_zero_Cons)
  finally show ?case
    using step tail by (simp add: b)
qed

text \<open>
  On a sequence built from runs that are apart and not empty, \<open>run_lengths\<close> gives
  back the lengths the sequence was built from.
\<close>

lemma takeWhile_replicate_Some:
  "takeWhile (\<lambda>v. v = None) (replicate a None @ map Some (y # ys) @ vs) = replicate a None"
  by (induction a) simp_all

lemma dropWhile_replicate_Some:
  "dropWhile (\<lambda>v. v = None) (replicate a None @ map Some (y # ys) @ vs) = map Some (y # ys) @ vs"
  by (induction a) simp_all

lemma run_lengths_Some:
  "run_lengths (map Some xs @ vs) = run_lengths vs"
  by (induction xs) simp_all

lemma run_lengths_runs_seq:
  "separated blocks \<Longrightarrow> \<forall>b \<in> set blocks. 0 < fst b \<Longrightarrow>
     run_lengths (runs_seq pre blocks) = map fst blocks"
proof (induction blocks arbitrary: pre)
  case Nil
  then show ?case using run_lengths_Some [of pre "[]"] by simp
next
  case (Cons b blocks)
  obtain a sep where b: "b = (a, sep)" by (cases b)
  with Cons.prems obtain k where a: "a = Suc k" by (cases a) auto
  show ?case
  proof (cases blocks)
    case Nil
    have "run_lengths (replicate (Suc k) None @ map Some sep) = [Suc k]"
    proof (cases sep)
      case Nil
      then show ?thesis by simp
    next
      case (Cons y ys)
      then show ?thesis
        using takeWhile_replicate_Some [of k y ys "[]"] dropWhile_replicate_Some [of k y ys "[]"]
          run_lengths_Some [of "y # ys" "[]"]
        by simp
    qed
    then show ?thesis
      using Nil b a run_lengths_Some [of pre "replicate (Suc k) None @ map Some sep"] by simp
  next
    case (Cons b' blocks')
    with Cons.prems b have sep: "sep \<noteq> []" and rest: "separated blocks"
      and pos: "\<forall>b \<in> set blocks. 0 < fst b"
      by simp_all
    from sep obtain y ys where sepc: "sep = y # ys" by (cases sep) auto
    have seq: "runs_seq sep blocks = map Some (y # ys) @ runs_seq [] blocks"
      using runs_seq_pre [of sep blocks] sepc by simp
    have "run_lengths (replicate (Suc k) None @ runs_seq sep blocks) =
        Suc k # run_lengths (runs_seq sep blocks)"
      unfolding seq
      using takeWhile_replicate_Some [of k y ys "runs_seq [] blocks"]
        dropWhile_replicate_Some [of k y ys "runs_seq [] blocks"]
      by simp
    also have "run_lengths (runs_seq sep blocks) = map fst blocks"
      using rest pos by (rule Cons.IH)
    finally show ?thesis
      using b a run_lengths_Some [of pre "replicate (Suc k) None @ runs_seq sep blocks"] by simp
  qed
qed

subsection \<open>Rounding to two decimals\<close>

lemma round_half_even_near: "\<bar>of_int (round_half_even q) - q\<bar> \<le> 1 / 2"
proof -
  define d where "d = q - of_int \<lfloor>q\<rfloor>"
  have d: "0 \<le> d" "d < 1"
    unfolding d_def by linarith+
  have q: "q = of_int \<lfloor>q\<rfloor> + d"
    unfolding d_def by simp
  consider "d < 1 / 2" | "d > 1 / 2" | "d = 1 / 2"
    by linarith
  then show ?thesis
  proof cases
    case 1
    then have "round_half_even q = \<lfloor>q\<rfloor>"
      by (simp add: round_half_even_def Let_def d_def)
    then show ?thesis
      using d 1 q by simp
  next
    case 2
    then have "round_half_even q = \<lfloor>q\<rfloor> + 1"
      by (simp add: round_half_even_def Let_def d_def)
    then have "of_int (round_half_even q) - q = 1 - d"
      using q by simp
    then show ?thesis
      using d 2 by simp
  next
    case 3
    then have "round_half_even q = \<lfloor>q\<rfloor> \<or> round_half_even q = \<lfloor>q\<rfloor> + 1"
      by (simp add: round_half_even_def Let_def d_def)
    then have "of_int (round_half_even q) - q = - d \<or> of_int (round_half_even q) - q = 1 - d"
      using q by auto
    then show ?thesis
      using 3 by auto
  qed
qed

lemma round2_near: "\<bar>round2 q - q\<bar> \<le> 1 / 200"
proof -
  have near: "\<bar>of_int (round_half_even (q * 100)) - q * 100\<bar> \<le> 1 / 2"
    by (rule round_half_even_near)
  have "round2 q - q = (of_int (round_half_even (q * 100)) - q * 100) / 100"
    unfolding round2_def by (simp add: diff_divide_distrib)
  then have "\<bar>round2 q - q\<bar> = \<bar>of_int (round_half_even (q * 100)) - q * 100\<bar> / 100"
    by (simp only: abs_divide)
  also have "\<dots> \<le> (1 / 2) / 100"
    using near by (rule divide_right_mono) simp
  finally show ?thesis
    by simp
qed

lemma round2_hundredths: "\<exists>k::int. round2 q = of_int k / 100"
  unfolding round2_def by blast

subsection \<open>Rounding to a double\<close>

text \<open>
  \<open>fl q\<close> is a number \<open>m * 2\<^sup>e\<close> whose significand \<open>m\<close> has 53 bits, it is at most half a unit
  of the last of these bits away from \<open>q\<close>, and it leaves every such number as it is: it
  rounds to the nearest double, and by \<open>round_half_even\<close> a tie goes to the even
  significand. A few doubles are checked against their known values.
\<close>

lemma pow2_power_int: "pow2 e = 2 powi e"
  by (simp add: pow2_def power_int_def inverse_eq_divide power_one_over)

lemma pow2_pos: "0 < pow2 e"
  by (simp add: pow2_power_int)

lemma pow2_add: "pow2 (d + e) = pow2 d * pow2 e"
  by (simp add: pow2_power_int power_int_add)

lemma pow2_nat: "pow2 (int n) = 2 ^ n"
  by (simp add: pow2_def)

lemma pow2_diff: "pow2 (d - e) = pow2 d / pow2 e"
  by (simp add: pow2_power_int power_int_diff)

lemma quotient_of_abs_pos:
  assumes "q \<noteq> 0" and "quotient_of \<bar>q\<bar> = (a, b)"
  shows "0 < a" and "0 < b" and "\<bar>q\<bar> = of_int a / of_int b"
proof -
  show b: "0 < b"
    using assms(2) by (rule quotient_of_denom_pos)
  show eq: "\<bar>q\<bar> = of_int a / of_int b"
    using assms(2) quotient_of_div by blast
  have "0 < \<bar>q\<bar>"
    using assms(1) by simp
  then show "0 < a"
    using b eq by (simp add: zero_less_divide_iff)
qed

lemma bitlen_pow2_bounds:
  assumes "0 < a"
  shows "pow2 (bitlen a - 1) \<le> of_int a" and "of_int a < pow2 (bitlen a)"
proof -
  have ge1: "1 \<le> bitlen a"
    using assms bitlen_eq_zero_iff [of a] bitlen_nonneg [of a] by linarith
  have b: "2 ^ nat (bitlen a - 1) \<le> a \<and> a < 2 ^ nat (bitlen a)"
    using assms by (rule bitlen_bounds)
  have "(of_int (2 ^ nat (bitlen a - 1)) :: rat) \<le> of_int a"
    using b by (simp only: of_int_le_iff)
  then show "pow2 (bitlen a - 1) \<le> of_int a"
    using ge1 by (simp add: pow2_def)
  have "(of_int a :: rat) < of_int (2 ^ nat (bitlen a))"
    using b by (simp only: of_int_less_iff)
  then show "of_int a < pow2 (bitlen a)"
    using ge1 by (simp add: pow2_def)
qed

lemma binade_bounds:
  assumes "q \<noteq> 0"
  shows "pow2 (binade q) \<le> \<bar>q\<bar>" and "\<bar>q\<bar> < pow2 (binade q + 1)"
proof -
  obtain a b where ab: "quotient_of \<bar>q\<bar> = (a, b)"
    by (cases "quotient_of \<bar>q\<bar>")
  note pos = quotient_of_abs_pos [OF assms ab]
  define k where "k = bitlen a - bitlen b"
  have binade: "binade q = (if \<bar>q\<bar> < pow2 k then k - 1 else k)"
    by (simp add: binade_def ab k_def)
  have a_lo: "pow2 (bitlen a - 1) \<le> of_int a" and a_hi: "of_int a < pow2 (bitlen a)"
    using bitlen_pow2_bounds [OF pos(1)] by simp_all
  have b_lo: "pow2 (bitlen b - 1) \<le> of_int b" and b_hi: "of_int b < pow2 (bitlen b)"
    using bitlen_pow2_bounds [OF pos(2)] by simp_all
  have bpos: "(0::rat) < of_int b"
    using pos(2) by simp
  have "pow2 (k - 1) * of_int b \<le> pow2 (k - 1) * pow2 (bitlen b)"
    using b_hi pow2_pos [of "k - 1"] by simp
  also have "\<dots> = pow2 (bitlen a - 1)"
    by (simp add: pow2_add [symmetric] k_def)
  also have "\<dots> \<le> of_int a"
    by (rule a_lo)
  finally have lo: "pow2 (k - 1) \<le> \<bar>q\<bar>"
    using bpos by (simp add: pos(3) pos_le_divide_eq)
  have "of_int a < pow2 (bitlen a)"
    by (rule a_hi)
  also have "\<dots> = pow2 (k + 1) * pow2 (bitlen b - 1)"
    by (simp add: pow2_add [symmetric] k_def)
  also have "\<dots> \<le> pow2 (k + 1) * of_int b"
    using b_lo pow2_pos [of "k + 1"] by simp
  finally have hi: "\<bar>q\<bar> < pow2 (k + 1)"
    using bpos by (simp add: pos(3) pos_divide_less_eq)
  show "pow2 (binade q) \<le> \<bar>q\<bar>"
    using lo by (simp add: binade)
  show "\<bar>q\<bar> < pow2 (binade q + 1)"
    using hi by (simp add: binade)
qed

lemma fl_near:
  assumes "q \<noteq> 0"
  shows "\<bar>fl q - q\<bar> \<le> pow2 (binade q - 53)"
proof -
  define p where "p = pow2 (binade q - 52)"
  have ppos: "0 < p"
    unfolding p_def by (rule pow2_pos)
  have "fl q - q = (of_int (round_half_even (q / p)) - q / p) * p"
    using assms ppos by (simp add: fl_def p_def Let_def algebra_simps)
  then have "\<bar>fl q - q\<bar> = \<bar>of_int (round_half_even (q / p)) - q / p\<bar> * p"
    using ppos by (simp add: abs_mult)
  also have "\<dots> \<le> (1 / 2) * p"
    using round_half_even_near [of "q / p"] ppos by (intro mult_right_mono) simp_all
  also have "\<dots> = pow2 (binade q - 53)"
    using pow2_add [of "binade q - 53" 1] by (simp add: p_def pow2_def)
  finally show ?thesis .
qed


lemma round_half_even_of_int: "round_half_even (of_int n) = n"
  by (simp add: round_half_even_def)

lemma round_half_even_between:
  assumes "of_int lo \<le> x" and "x \<le> of_int hi"
  shows "lo \<le> round_half_even x" and "round_half_even x \<le> hi"
proof -
  have lo: "lo \<le> \<lfloor>x\<rfloor>"
    using assms(1) by (simp add: le_floor_iff)
  have hi: "\<lfloor>x\<rfloor> \<le> hi"
    using assms(2) by (simp add: floor_le_iff)
  have cases: "round_half_even x = \<lfloor>x\<rfloor>
      \<or> (round_half_even x = \<lfloor>x\<rfloor> + 1 \<and> of_int \<lfloor>x\<rfloor> < x)"
    by (auto simp: round_half_even_def Let_def)
  from cases lo show "lo \<le> round_half_even x"
    by auto
  have "\<lfloor>x\<rfloor> + 1 \<le> hi" if "of_int \<lfloor>x\<rfloor> < x"
  proof -
    have "(of_int \<lfloor>x\<rfloor> :: rat) < of_int hi"
      using that assms(2) by linarith
    then show ?thesis
      by simp
  qed
  with cases hi show "round_half_even x \<le> hi"
    by auto
qed

lemma pow2_mono: "d \<le> e \<Longrightarrow> pow2 d \<le> pow2 e"
  by (simp add: pow2_power_int power_int_increasing)

lemma pow2_less_cancel: "pow2 d < pow2 e \<Longrightarrow> d < e"
  using pow2_mono [of e d] by (cases "d < e") simp_all

lemma pow2_52: "pow2 52 = 2 ^ 52" and pow2_53: "pow2 53 = 2 ^ 53"
  by (simp_all add: pow2_def)

lemma fl_form:
  assumes "q \<noteq> 0"
  shows "\<exists>m. fl q = of_int m * pow2 (binade q - 52) \<and> 2 ^ 52 \<le> \<bar>m\<bar> \<and> \<bar>m\<bar> \<le> 2 ^ 53"
proof -
  define p where "p = pow2 (binade q - 52)"
  define m where "m = round_half_even (q / p)"
  have ppos: "0 < p"
    unfolding p_def by (rule pow2_pos)
  have fl: "fl q = of_int m * p"
    using assms by (simp add: fl_def p_def m_def Let_def)
  have "pow2 (binade q) = 2 ^ 52 * p"
    using pow2_add [of 52 "binade q - 52"] by (simp add: p_def pow2_52)
  then have lo: "2 ^ 52 \<le> \<bar>q\<bar> / p"
    using binade_bounds(1) [OF assms] ppos by (simp add: pos_le_divide_eq)
  have "binade q + 1 = 53 + (binade q - 52)"
    by simp
  then have "pow2 (binade q + 1) = 2 ^ 53 * p"
    by (simp only: pow2_add p_def pow2_53)
  then have hi: "\<bar>q\<bar> / p \<le> 2 ^ 53"
    using binade_bounds(2) [OF assms] ppos by (simp add: pos_divide_le_eq)
  have "2 ^ 52 \<le> \<bar>m\<bar> \<and> \<bar>m\<bar> \<le> 2 ^ 53"
  proof (cases "0 < q")
    case True
    then have "\<bar>q\<bar> / p = q / p"
      by simp
    with lo hi have "of_int (2 ^ 52) \<le> q / p" and "q / p \<le> of_int (2 ^ 53)"
      by simp_all
    then have "2 ^ 52 \<le> m" and "m \<le> 2 ^ 53"
      unfolding m_def by (rule round_half_even_between)+
    then show ?thesis
      by simp
  next
    case False
    with assms have "\<bar>q\<bar> / p = - (q / p)"
      by simp
    with lo hi have "of_int (- (2 ^ 53)) \<le> q / p" and "q / p \<le> of_int (- (2 ^ 52))"
      by simp_all
    then have "- (2 ^ 53) \<le> m" and "m \<le> - (2 ^ 52)"
      unfolding m_def by (rule round_half_even_between)+
    then show ?thesis
      by simp
  qed
  with fl show ?thesis
    unfolding p_def by blast
qed

lemma fl_exact:
  assumes "\<bar>m\<bar> < 2 ^ 53"
  shows "fl (of_int m * pow2 e) = of_int m * pow2 e"
proof (cases "m = 0")
  case True
  then show ?thesis
    by (simp add: fl_def)
next
  case False
  define q where "q = of_int m * pow2 e"
  have q0: "q \<noteq> 0"
    using False pow2_pos [of e] by (simp add: q_def)
  have "\<bar>q\<bar> = of_int \<bar>m\<bar> * pow2 e"
    using pow2_pos [of e] by (simp add: q_def abs_mult)
  also have "\<dots> < of_int (2 ^ 53) * pow2 e"
    using assms pow2_pos [of e] by (simp only: mult_less_cancel_right_pos of_int_less_iff)
  also have "\<dots> = pow2 (53 + e)"
    by (simp add: pow2_add pow2_53)
  finally have "pow2 (binade q) < pow2 (53 + e)"
    using binade_bounds(1) [OF q0] by simp
  then have "binade q < 53 + e"
    by (rule pow2_less_cancel)
  then obtain n where n: "e - (binade q - 52) = int n"
    using zero_le_imp_eq_int [of "e - (binade q - 52)"] by auto
  have "q / pow2 (binade q - 52) = of_int m * pow2 (e - (binade q - 52))"
    by (simp add: q_def pow2_diff)
  also have "\<dots> = of_int (m * 2 ^ n)"
    by (simp add: n pow2_nat)
  finally have "round_half_even (q / pow2 (binade q - 52)) = m * 2 ^ n"
    by (simp only: round_half_even_of_int)
  then have "fl q = of_int (m * 2 ^ n) * pow2 (binade q - 52)"
    using q0 by (simp add: fl_def Let_def)
  also have "\<dots> = of_int m * (pow2 (int n) * pow2 (binade q - 52))"
    by (simp add: pow2_nat)
  also have "pow2 (int n) * pow2 (binade q - 52) = pow2 e"
  proof -
    have "int n + (binade q - 52) = e"
      using n by simp
    then show ?thesis
      by (simp only: pow2_add [symmetric])
  qed
  finally show ?thesis
    by (simp add: q_def)
qed

lemma fl_known_doubles:
  "fl (1 / 10) = 3602879701896397 / 36028797018963968"
  "fl (1 / 3) = 6004799503160661 / 18014398509481984"
  "fl (23 / 160) = 2589569785738035 / 18014398509481984"
  "fl (fl (23 / 160) * 100) = 8092405580431359 / 562949953421312"
  "fl (14375 / 1000) = 14375 / 1000"
  by code_simp+

lemma fl_relative: "\<bar>fl q - q\<bar> \<le> \<bar>q\<bar> / 2 ^ 53"
proof (cases "q = 0")
  case True
  then show ?thesis by (simp add: fl_def)
next
  case False
  have "binade q - 53 = binade q + (- 53)"
    by simp
  then have "pow2 (binade q - 53) = pow2 (binade q) * pow2 (- 53)"
    by (simp only: pow2_add)
  also have "pow2 (- 53) = 1 / 2 ^ 53"
    by (simp add: pow2_def)
  finally have "pow2 (binade q - 53) = pow2 (binade q) / 2 ^ 53"
    by simp
  also have "\<dots> \<le> \<bar>q\<bar> / 2 ^ 53"
    using binade_bounds(1) [OF False] by (simp add: divide_right_mono)
  finally show ?thesis
    using fl_near [OF False] by linarith
qed

lemma percentage_near:
  fixes x :: rat
  shows "\<bar>round2 (fl (fl x * 100)) - 100 * x\<bar> \<le> 1 / 200 + \<bar>100 * x\<bar> / 2 ^ 51"
proof -
  define y where "y = fl x * 100"
  define z where "z = fl y"
  have ex: "\<bar>fl x - x\<bar> \<le> \<bar>x\<bar> / 2 ^ 53"
    by (rule fl_relative)
  have "\<bar>y - 100 * x\<bar> = 100 * \<bar>fl x - x\<bar>"
    by (simp add: y_def abs_if)
  with ex have ey: "\<bar>y - 100 * x\<bar> \<le> 100 * \<bar>x\<bar> / 2 ^ 53"
    by simp
  have "\<bar>y\<bar> \<le> \<bar>y - 100 * x\<bar> + \<bar>100 * x\<bar>"
    by linarith
  with ey have ay: "\<bar>y\<bar> \<le> 100 * \<bar>x\<bar> / 2 ^ 53 + 100 * \<bar>x\<bar>"
    by (simp add: abs_mult)
  have "\<bar>z - y\<bar> \<le> \<bar>y\<bar> / 2 ^ 53"
    unfolding z_def by (rule fl_relative)
  also have "\<dots> \<le> (100 * \<bar>x\<bar> / 2 ^ 53 + 100 * \<bar>x\<bar>) / 2 ^ 53"
    using ay by (rule divide_right_mono) simp
  finally have ez: "\<bar>z - y\<bar> \<le> (100 * \<bar>x\<bar> / 2 ^ 53 + 100 * \<bar>x\<bar>) / 2 ^ 53" .
  have er: "\<bar>round2 z - z\<bar> \<le> 1 / 200"
    by (rule round2_near)
  have "\<bar>round2 z - 100 * x\<bar> \<le> \<bar>round2 z - z\<bar> + \<bar>z - y\<bar> + \<bar>y - 100 * x\<bar>"
    by linarith
  also have "\<dots> \<le> 1 / 200 + (100 * \<bar>x\<bar> / 2 ^ 53 + 100 * \<bar>x\<bar>) / 2 ^ 53 + 100 * \<bar>x\<bar> / 2 ^ 53"
    using er ez ey by linarith
  also have "\<dots> \<le> 1 / 200 + \<bar>100 * x\<bar> / 2 ^ 51"
  proof -
    have "0 \<le> \<bar>x\<bar>" by simp
    then show ?thesis
      by (simp add: abs_mult field_simps)
  qed
  finally show ?thesis
    by (simp add: z_def y_def)
qed

subsection \<open>Sums of doubles\<close>

text \<open>
  The rounded sum of \<open>n\<close> doubles differs from their exact sum by at most
  \<open>(1 + u)\<^sup>n - 1\<close> times the sum of their magnitudes, \<open>u\<close> being \<open>unit_roundoff\<close>, and the
  mean computed from it differs from the exact mean by at most \<open>1/200\<close> and
  \<open>(1 + u)\<^sup>n\<^sup>+\<^sup>1 - 1\<close> times the mean magnitude.
\<close>

lemma fl_error: "\<bar>fl q - q\<bar> \<le> unit_roundoff * \<bar>q\<bar>"
  using fl_relative [of q] by (simp add: unit_roundoff_def)

lemma unit_roundoff_nonneg: "0 \<le> unit_roundoff"
  by (simp add: unit_roundoff_def)

lemma float_sum_loop_error:
  "\<bar>float_sum_loop items result - (result + sum_list items)\<bar>
     \<le> ((1 + unit_roundoff) ^ length items - 1) * (\<bar>result\<bar> + sum_list (map abs items))"
proof (induction items arbitrary: result)
  case Nil
  then show ?case by simp
next
  case (Cons x xs)
  define u where "u = unit_roundoff"
  define e where "e = (1 + u) ^ length xs - 1"
  define A where "A = \<bar>result\<bar> + \<bar>x\<bar>"
  define B where "B = sum_list (map abs xs)"
  define r1 where "r1 = fl (result + x)"
  define L where "L = float_sum_loop xs r1"
  have u0: "0 \<le> u"
    unfolding u_def by (rule unit_roundoff_nonneg)
  have e0: "0 \<le> e"
    unfolding e_def using u0 by simp
  have B0: "0 \<le> B"
    unfolding B_def by (rule sum_list_nonneg) auto
  have A0: "0 \<le> A"
    unfolding A_def by simp
  have d1: "\<bar>r1 - (result + x)\<bar> \<le> u * \<bar>result + x\<bar>"
    unfolding r1_def u_def by (rule fl_error)
  have "u * \<bar>result + x\<bar> \<le> u * A"
    unfolding A_def using u0 by (intro mult_left_mono) simp_all
  with d1 have d1A: "\<bar>r1 - (result + x)\<bar> \<le> u * A"
    by linarith
  have "\<bar>r1\<bar> \<le> \<bar>r1 - (result + x)\<bar> + \<bar>result + x\<bar>"
    by linarith
  also have "\<dots> \<le> u * A + A"
    using d1A by (simp add: A_def)
  finally have a1: "\<bar>r1\<bar> \<le> (1 + u) * A"
    by (simp add: algebra_simps)
  have ih: "\<bar>L - (r1 + sum_list xs)\<bar> \<le> e * (\<bar>r1\<bar> + B)"
    unfolding L_def e_def B_def u_def by (rule Cons.IH)
  have "e * (\<bar>r1\<bar> + B) \<le> e * ((1 + u) * A + B)"
    using a1 e0 by (intro mult_left_mono) simp_all
  with ih have ih': "\<bar>L - (r1 + sum_list xs)\<bar> \<le> e * ((1 + u) * A + B)"
    by linarith
  have "\<bar>L - (result + x + sum_list xs)\<bar>
      \<le> \<bar>L - (r1 + sum_list xs)\<bar> + \<bar>r1 - (result + x)\<bar>"
    by linarith
  also have "\<dots> \<le> e * ((1 + u) * A + B) + u * A"
    using ih' d1A by linarith
  also have "\<dots> \<le> ((1 + u) * e + u) * (A + B)"
  proof -
    have "0 \<le> u * e * B" and "0 \<le> u * B"
      using u0 e0 B0 by simp_all
    then show ?thesis
      by (simp add: algebra_simps)
  qed
  also have "(1 + u) * e + u = (1 + u) ^ length (x # xs) - 1"
    by (simp add: e_def algebra_simps)
  finally show ?case
    by (simp add: L_def r1_def A_def B_def u_def add.assoc)
qed

lemma float_sum_error:
  "\<bar>float_sum items - sum_list items\<bar>
     \<le> ((1 + unit_roundoff) ^ length items - 1) * sum_list (map abs items)"
  using float_sum_loop_error [of items 0] by (simp add: float_sum_def)

lemma float_mean_near:
  assumes "items \<noteq> []"
  shows "\<bar>round2 (fl (float_sum items / of_nat (length items)))
            - sum_list items / of_nat (length items)\<bar>
     \<le> 1 / 200 + ((1 + unit_roundoff) ^ Suc (length items) - 1)
                    * (sum_list (map abs items) / of_nat (length items))"
proof -
  define u where "u = unit_roundoff"
  define n where "n = length items"
  define N :: rat where "N = of_nat n"
  define s where "s = sum_list items"
  define s' where "s' = float_sum items"
  define T where "T = sum_list (map abs items)"
  define p where "p = (1 + u) ^ n"
  define q where "q = s' / N"
  have N0: "0 < N"
    using assms by (simp add: N_def n_def)
  have u0: "0 \<le> u"
    unfolding u_def by (rule unit_roundoff_nonneg)
  have p1: "1 \<le> p"
    unfolding p_def using u0 by simp
  have T0: "0 \<le> T"
    unfolding T_def by (rule sum_list_nonneg) auto
  have sT: "\<bar>s\<bar> \<le> T"
    unfolding s_def T_def by (rule sum_list_abs)
  have es: "\<bar>s' - s\<bar> \<le> (p - 1) * T"
    unfolding s'_def s_def p_def n_def T_def u_def by (rule float_sum_error)
  have "\<bar>s'\<bar> \<le> \<bar>s' - s\<bar> + \<bar>s\<bar>"
    by linarith
  with es sT have as': "\<bar>s'\<bar> \<le> p * T"
    by (simp add: algebra_simps)
  have "\<bar>fl q - q\<bar> \<le> u * \<bar>q\<bar>"
    unfolding u_def by (rule fl_error)
  also have "\<bar>q\<bar> = \<bar>s'\<bar> / N"
    using N0 by (simp add: q_def)
  also have "u * (\<bar>s'\<bar> / N) \<le> u * (p * T / N)"
    using as' u0 N0 by (intro mult_left_mono divide_right_mono) simp_all
  finally have e1: "\<bar>fl q - q\<bar> \<le> u * (p * T / N)" .
  have "q - s / N = (s' - s) / N"
    by (simp add: q_def diff_divide_distrib)
  then have "\<bar>q - s / N\<bar> = \<bar>s' - s\<bar> / N"
    using N0 by simp
  also have "\<dots> \<le> (p - 1) * T / N"
    using es N0 by (intro divide_right_mono) simp_all
  finally have e2: "\<bar>q - s / N\<bar> \<le> (p - 1) * T / N" .
  have e3: "\<bar>round2 (fl q) - fl q\<bar> \<le> 1 / 200"
    by (rule round2_near)
  have "\<bar>round2 (fl q) - s / N\<bar>
      \<le> \<bar>round2 (fl q) - fl q\<bar> + \<bar>fl q - q\<bar> + \<bar>q - s / N\<bar>"
    by linarith
  also have "\<dots> \<le> 1 / 200 + u * (p * T / N) + (p - 1) * T / N"
    using e1 e2 e3 by linarith
  also have "\<dots> = 1 / 200 + ((1 + u) * p - 1) * (T / N)"
    by (simp add: algebra_simps diff_divide_distrib add_divide_distrib)
  finally show ?thesis
    by (simp add: q_def s'_def s_def N_def n_def T_def p_def u_def mult.commute)
qed

subsection \<open>Sums, maxima and counts\<close>

lemma py_sum_loop_sum_list: "py_sum_loop items result = result + sum_list items"
  by (induction items arbitrary: result) (simp_all add: add.assoc)

lemma py_sum_sum_list: "py_sum items = sum_list items"
  by (simp add: py_sum_def py_sum_loop_sum_list)

lemma py_sum_ones: "py_sum (map (\<lambda>value. 1::nat) items) = length items"
  by (simp add: py_sum_sum_list sum_list_triv)

lemma py_max_Max: "py_max maxval items = Max (set (maxval # items))"
proof (induction items arbitrary: maxval)
  case Nil
  then show ?case by simp
next
  case (Cons item items)
  have "py_max maxval (item # items) = Max (set (max maxval item # items))"
    by (simp add: Cons.IH max_def)
  also have "\<dots> = Max (set (maxval # item # items))"
    by (cases items) (simp_all add: max.assoc)
  finally show ?case .
qed

lemma py_min_Min: "py_min minval items = Min (set (minval # items))"
proof (induction items arbitrary: minval)
  case Nil
  then show ?case by simp
next
  case (Cons item items)
  have "py_min minval (item # items) = Min (set (min minval item # items))"
    by (simp add: Cons.IH min_def)
  also have "\<dots> = Min (set (minval # item # items))"
    by (cases items) (simp_all add: min.assoc)
  finally show ?case .
qed

lemma missing_data_loop_count:
  "missing_data_loop es_hits n = n + length (filter (\<lambda>h. field_value h = None) es_hits)"
  by (induction es_hits arbitrary: n) simp_all

lemma calculate_missing_data_count:
  "calculate_missing_data es_hits = length (filter (\<lambda>h. field_value h = None) es_hits)"
  by (simp add: calculate_missing_data_def missing_data_loop_count)

lemma statistics_example:
  "calculate_statistics
     (CalcList [''mean'', ''max'', ''min'', ''count above threshold'',
        ''count below threshold'', ''count equal threshold''])
     [Some 1, Some 2, None, Some 3] 2
   = \<lparr>total_stat = 3, mean_stat = Some 2, max_stat = Some 3, min_stat = Some 1,
      threshold_stat = 2, count_above = Some 1, count_below = Some 1, count_equal = Some 1\<rparr>"
  by code_simp

subsection \<open>First occurrences\<close>

lemma unique_stations_loop_first_occurrences:
  "unique_stations_loop infos acc = acc @ filter (\<lambda>x. x \<notin> set acc) (first_occurrences infos)"
proof (induction infos arbitrary: acc)
  case Nil
  then show ?case by simp
next
  case (Cons info infos)
  show ?case
  proof (cases "info \<in> set acc")
    case True
    then have "filter (\<lambda>x. x \<notin> set acc) (filter (\<lambda>y. y \<noteq> info) (first_occurrences infos))
        = filter (\<lambda>x. x \<notin> set acc) (first_occurrences infos)"
      by (auto intro: filter_cong)
    with True show ?thesis
      by (simp add: Cons.IH)
  next
    case False
    have "filter (\<lambda>x. x \<notin> set (acc @ [info])) (first_occurrences infos)
        = filter (\<lambda>x. x \<notin> set acc) (filter (\<lambda>y. y \<noteq> info) (first_occurrences infos))"
      by (auto intro: filter_cong)
    with False show ?thesis
      by (simp add: Cons.IH)
  qed
qed

lemma set_first_occurrences: "set (first_occurrences xs) = set xs"
  by (induction xs) auto

lemma distinct_first_occurrences: "distinct (first_occurrences xs)"
  by (induction xs) (simp_all add: set_first_occurrences)

lemma first_seen_Cons:
  "first_seen (x # xs) y = (if y = x then 0 else Suc (first_seen xs y))"
  by (simp add: first_seen_def)

lemma sorted_first_occurrences:
  "sorted_wrt (\<lambda>a b. first_seen xs a < first_seen xs b) (first_occurrences xs)"
proof (induction xs)
  case Nil
  then show ?case by simp
next
  case (Cons x xs)
  let ?rest = "filter (\<lambda>y. y \<noteq> x) (first_occurrences xs)"
  have "sorted_wrt (\<lambda>a b. first_seen xs a < first_seen xs b) ?rest"
    using Cons.IH by (rule sorted_wrt_filter)
  then have "sorted_wrt (\<lambda>a b. first_seen (x # xs) a < first_seen (x # xs) b) ?rest"
    by (rule sorted_wrt_mono_rel [rotated]) (simp add: first_seen_Cons)
  moreover have "\<forall>y \<in> set ?rest. first_seen (x # xs) x < first_seen (x # xs) y"
    by (simp add: first_seen_Cons)
  ultimately show ?case by simp
qed

text \<open>
  The loop over the station tuples, started with the empty list, gives the distinct tuples
  in the order in which they are first seen, for every sequence.
\<close>

lemma unique_stations_loop_first_seen:
  "distinct (unique_stations_loop infos [])
   \<and> set (unique_stations_loop infos []) = set infos
   \<and> sorted_wrt (\<lambda>s t. first_seen infos s < first_seen infos t) (unique_stations_loop infos [])
   \<and> unique_stations_loop infos [] = first_occurrences infos"
  using distinct_first_occurrences [of infos] set_first_occurrences [of infos]
    sorted_first_occurrences [of infos]
  by (simp add: unique_stations_loop_first_occurrences)

section \<open>The claims\<close>

subsection \<open>Classification\<close>

text \<open>
  Claim C1, as the code has it. For the option \<^verbatim>\<open>"WMO"\<close> the result is \<^verbatim>\<open>"OK"\<close>
  whenever the number of missing days is 0 or the longest run is 0; when neither is 0, it
  is \<^verbatim>\<open>"WMO criteria met: Missing or invalid month"\<close> if and only if the number of
  missing days is at least 11 or the longest run is at least 5, and \<^verbatim>\<open>"OK"\<close>
  otherwise. The pairs (10, 4), (11, 4) and (3, 5) of missing days and longest run give
  \<^verbatim>\<open>"OK"\<close>, the criteria message and the criteria message.
\<close>

theorem wmo_classification:
  "(missing_days = 0 \<or> consecutive_missing_days = 0 \<longrightarrow>
      check_missing_data_options (PyStr ''WMO'') pct missing_days consecutive_missing_days
        = Inr ''OK'')
   \<and> (missing_days \<noteq> 0 \<and> consecutive_missing_days \<noteq> 0 \<longrightarrow>
      check_missing_data_options (PyStr ''WMO'') pct missing_days consecutive_missing_days
        = (if missing_days \<ge> 11 \<or> consecutive_missing_days \<ge> 5
           then Inr ''WMO criteria met: Missing or invalid month'' else Inr ''OK''))
   \<and> check_missing_data_options (PyStr ''WMO'') pct 10 4 = Inr ''OK''
   \<and> check_missing_data_options (PyStr ''WMO'') pct 11 4
        = Inr ''WMO criteria met: Missing or invalid month''
   \<and> check_missing_data_options (PyStr ''WMO'') pct 3 5
        = Inr ''WMO criteria met: Missing or invalid month''"
  by (simp add: check_missing_data_options_def)

theorem wmo_classification_witness:
  "((0::int) = 0 \<or> (5::int) = 0)
   \<and> check_missing_data_options (PyStr ''WMO'') 0 0 5 = Inr ''OK''
   \<and> ((3::int) \<noteq> 0 \<and> (5::int) \<noteq> 0)
   \<and> check_missing_data_options (PyStr ''WMO'') 0 3 5
        = Inr ''WMO criteria met: Missing or invalid month''"
  using wmo_classification [of 0 5 0] wmo_classification [of 3 5 0] by simp

text \<open>
  The claim as it was stated tests the longest run alone in the first check. With no
  missing day and a longest run of 5 the run is not 0 and reaches the threshold, and the
  function still answers \<^verbatim>\<open>"OK"\<close>.
\<close>

theorem wmo_run_only_counterexample:
  "(5::int) \<noteq> 0 \<and> ((0::int) \<ge> 11 \<or> (5::int) \<ge> 5)
   \<and> check_missing_data_options (PyStr ''WMO'') 0 0 5
        \<noteq> Inr ''WMO criteria met: Missing or invalid month''
   \<and> check_missing_data_options (PyStr ''WMO'') 0 0 5 = Inr ''OK''"
  by (simp add: check_missing_data_options_def)

text \<open>
  Claim C2. For the options 5, 10 and 15 the function of \<^verbatim>\<open>climate_stats.py\<close>
  returns \<^verbatim>\<open>"OK"\<close> exactly when the percentage is at most the option, the boundary
  included. Above the option it does not return the message that carries the percentage
  and the option: it raises \<^verbatim>\<open>NameError\<close>, at 10.01 under the option 10 for one. The
  function of \<^verbatim>\<open>test.py\<close> returns the message there.
\<close>

theorem percentage_filtered_raises:
  "check_missing_data_options (PyInt 5) pct missing_days consecutive_missing_days
     = (if pct \<le> 5 then Inr ''OK'' else Inl NameError)
   \<and> check_missing_data_options (PyInt 10) pct missing_days consecutive_missing_days
     = (if pct \<le> 10 then Inr ''OK'' else Inl NameError)
   \<and> check_missing_data_options (PyInt 15) pct missing_days consecutive_missing_days
     = (if pct \<le> 15 then Inr ''OK'' else Inl NameError)
   \<and> check_missing_data_options (PyInt 10) 10 0 0 = Inr ''OK''
   \<and> check_missing_data_options (PyInt 10) (1001 / 100) 0 0 = Inl NameError
   \<and> check_missing_data_options_test float_str (PyInt 10) pct missing_days
         consecutive_missing_days
     = (if pct \<le> 10 then Inr ''OK''
        else Inr (filtered_message (float_str pct) ''10''))
   \<and> check_missing_data_options_test float_str (PyInt 10) (1001 / 100) 0 0
     = Inr (filtered_message (float_str (1001 / 100)) ''10'')"
  by (simp add: check_missing_data_options_def
      check_missing_data_options_test_def not_less)

text \<open>
  Claim C8. For every option other than \<^verbatim>\<open>None\<close>, 5, 10, 15 and \<^verbatim>\<open>"WMO"\<close> the
  function raises an exception, which reaches the caller, and returns no status. The
  exception is the \<^verbatim>\<open>UnboundLocalError\<close> of the \<^verbatim>\<open>return\<close>; the handler prints
  that the option is not acceptable and raises it again.
\<close>

theorem invalid_option_raises:
  "opt \<notin> {PyNone, PyInt 5, PyInt 10, PyInt 15, PyStr ''WMO''} \<Longrightarrow>
     check_missing_data_options opt pct missing_days consecutive_missing_days
       = Inl UnboundLocalError
     \<and> (\<forall>status. check_missing_data_options opt pct missing_days consecutive_missing_days
          \<noteq> Inr status)"
  by (simp add: check_missing_data_options_def)

theorem invalid_option_raises_witness:
  "PyStr ''None'' \<notin> {PyNone, PyInt 5, PyInt 10, PyInt 15, PyStr ''WMO''}
   \<and> check_missing_data_options (PyStr ''None'') 0 0 0 = Inl UnboundLocalError"
proof -
  have h: "PyStr ''None'' \<notin> {PyNone, PyInt 5, PyInt 10, PyInt 15, PyStr ''WMO''}"
    by simp
  show ?thesis
    using h invalid_option_raises [OF h, of 0 0 0] by simp
qed

subsection \<open>Missing days and runs\<close>

text \<open>
  Claim C6. On every sequence \<^verbatim>\<open>calculate_consecutive_missing_days\<close> returns the
  greatest length of a maximal run of missing entries, and 0 when there is none. For a
  sequence made of runs of lengths \<open>a, b, c, \<dots>\<close> with values between them, that is the
  greatest of \<open>a, b, c, \<dots>\<close>; for a sequence with no missing entry it is 0.
\<close>

theorem longest_missing_run:
  "calculate_consecutive_missing_days (DataList vs) = Inr (Max (set (0 # run_lengths vs)))
   \<and> (separated blocks \<longrightarrow>
        calculate_consecutive_missing_days (DataList (runs_seq pre blocks))
          = Inr (Max (set (0 # map fst blocks))))
   \<and> (None \<notin> set vs \<longrightarrow> calculate_consecutive_missing_days (DataList vs) = Inr 0)"
proof (intro conjI impI)
  show "calculate_consecutive_missing_days (DataList vs) = Inr (Max (set (0 # run_lengths vs)))"
    by (simp only: calculate_consecutive_missing_days.simps consecutive_loop_run_lengths)
next
  assume "separated blocks"
  then have "consecutive_loop (runs_seq pre blocks) 0 0 = max 0 (Max (set (0 # map fst blocks)))"
    by (rule consecutive_loop_runs_seq)
  then show "calculate_consecutive_missing_days (DataList (runs_seq pre blocks))
      = Inr (Max (set (0 # map fst blocks)))"
    by simp
next
  assume "None \<notin> set vs"
  then have "consecutive_loop vs 0 0 = 0"
    by (simp add: consecutive_loop_zero_iff)
  then show "calculate_consecutive_missing_days (DataList vs) = Inr 0"
    by simp
qed

theorem longest_missing_run_witness:
  "separated [(2, [1::rat]), (3, [2, 3]), (1, [])]
   \<and> runs_seq [0] [(2, [1::rat]), (3, [2, 3]), (1, [])]
       = [Some 0, None, None, Some 1, None, None, None, Some 2, Some 3, None]
   \<and> calculate_consecutive_missing_days
        (DataList [Some 0, None, None, Some 1, None, None, None, Some 2, Some 3, None])
       = Inr 3
   \<and> None \<notin> set [Some (1::rat), Some 2]
   \<and> calculate_consecutive_missing_days (DataList [Some (1::rat), Some 2]) = Inr 0"
  using longest_missing_run [of "[Some (1::rat), Some 2]" "[(2, [1::rat]), (3, [2, 3]), (1, [])]" "[0]"]
  by (simp add: numeral_eq_Suc)

text \<open>
  Claim C10. On every sequence \<^verbatim>\<open>calculate_missing_days\<close> returns 0 if and only if
  \<^verbatim>\<open>calculate_consecutive_missing_days\<close> returns 0. So when both arguments of the
  \<^verbatim>\<open>"WMO"\<close> branch come from one sequence, its first check, that either is 0, holds
  exactly when the longest run is 0, and the branch decides as if it tested the run
  alone.
\<close>

theorem missing_zero_iff_run_zero:
  "\<exists>md c. calculate_missing_days (DataList vs) = Inr md
     \<and> calculate_consecutive_missing_days (DataList vs) = Inr c
     \<and> (md = 0 \<longleftrightarrow> c = 0)
     \<and> ((int md = 0 \<or> int c = 0) \<longleftrightarrow> int c = 0)
     \<and> check_missing_data_options (PyStr ''WMO'') pct (int md) (int c)
         = Inr (if int c = 0 then ''OK''
                else if int md \<ge> 11 \<or> int c \<ge> 5
                  then ''WMO criteria met: Missing or invalid month''
                else ''OK'')"
proof -
  have "missing_days_loop vs 0 = 0 \<longleftrightarrow> consecutive_loop vs 0 0 = 0"
    by (simp add: missing_days_loop_zero_iff consecutive_loop_zero_iff)
  then show ?thesis
    by (auto simp: check_missing_data_options_def)
qed

theorem missing_zero_iff_run_zero_witness:
  "calculate_missing_days (DataList [None, Some (1::rat)]) = Inr 1
   \<and> calculate_consecutive_missing_days (DataList [None, Some (1::rat)]) = Inr 1
   \<and> calculate_missing_days (DataList [Some (1::rat)]) = Inr 0
   \<and> calculate_consecutive_missing_days (DataList [Some (1::rat)]) = Inr 0"
  using missing_zero_iff_run_zero [of "[None, Some (1::rat)]" 0]
    missing_zero_iff_run_zero [of "[Some (1::rat)]" 0]
  by simp

subsection \<open>The missing-data part of the pipeline\<close>

text \<open>
  Claim C3. \<^verbatim>\<open>climate_stats\<close> does not give the value sequence to
  \<^verbatim>\<open>calculate_consecutive_missing_days\<close>: it gives the integer \<^verbatim>\<open>missing_days\<close>.
  Whatever the records, the count and the option are, the missing-data part ends with an
  exception (\<^verbatim>\<open>ZeroDivisionError\<close> for a count of 0, else the \<^verbatim>\<open>TypeError\<close> of
  iterating over an integer), and no longest run reaches the classification. On the
  records with the values \<^verbatim>\<open>[None, 1.0]\<close> a scan of the value sequence would have given the
  run 1.
\<close>

theorem consecutive_days_called_on_count:
  "missing_data_handling es_hits es_count missing_data_option
     = Inl (if es_count = 0 then ZeroDivisionError else TypeError)
   \<and> missing_data_handling
       [\<lparr>field_value = None, STATION_NAME = ''A'', STN_ID = 1, coordinates = [0, 0]\<rparr>,
        \<lparr>field_value = Some 1, STATION_NAME = ''A'', STN_ID = 1, coordinates = [0, 0]\<rparr>]
       2 (PyStr ''WMO'')
     = Inl TypeError
   \<and> calculate_consecutive_missing_days (DataList (valuesResultsList
       [\<lparr>field_value = None, STATION_NAME = ''A'', STN_ID = 1, coordinates = [0, 0]\<rparr>,
        \<lparr>field_value = Some 1, STATION_NAME = ''A'', STN_ID = 1, coordinates = [0, 0]\<rparr>]))
     = Inr 1"
  by (simp add: missing_data_handling_def missing_data_percentage_def py_truediv_def
      valuesResultsList_def)

text \<open>
  Claim C7, as the code has it. The percentage is
  \<^verbatim>\<open>round((missing_data / es_count) * 100, 2)\<close>: the count of missing values is divided
  by the record count first, the quotient, rounded to a double, is multiplied by 100 and
  rounded to a double again, and that is rounded to two decimals. The result is within
  0.005, and a relative \<^verbatim>\<open>2 ** -51\<close>, of the exact percentage. The computation raises
  \<^verbatim>\<open>ZeroDivisionError\<close> exactly when the record count is 0, and raises nothing else.
\<close>

theorem percentage_divides_first:
  "(missing_data_percentage es_hits es_count = Inl ZeroDivisionError \<longleftrightarrow> es_count = 0)
   \<and> (\<forall>e. missing_data_percentage es_hits es_count = Inl e \<longrightarrow>
         e = ZeroDivisionError \<and> es_count = 0)
   \<and> (es_count \<noteq> 0 \<longrightarrow>
        missing_data_percentage es_hits es_count
          = Inr (round2 (fl (fl (of_nat (length (filter (\<lambda>h. field_value h = None) es_hits))
                                 / of_int es_count) * 100)))
        \<and> \<bar>round2 (fl (fl (of_nat (length (filter (\<lambda>h. field_value h = None) es_hits))
                            / of_int es_count) * 100))
            - 100 * (of_nat (length (filter (\<lambda>h. field_value h = None) es_hits))
                     / of_int es_count)\<bar>
          \<le> 1 / 200
             + \<bar>100 * (of_nat (length (filter (\<lambda>h. field_value h = None) es_hits))
                        / of_int es_count)\<bar> / 2 ^ 51)"
  using percentage_near
    [of "of_nat (length (filter (\<lambda>h. field_value h = None) es_hits)) / of_int es_count"]
  by (simp add: missing_data_percentage_def py_truediv_def calculate_missing_data_count)

theorem percentage_divides_first_witness:
  "(4::int) \<noteq> 0
   \<and> missing_data_percentage
        [\<lparr>field_value = None, STATION_NAME = ''A'', STN_ID = 1, coordinates = [0, 0]\<rparr>,
         \<lparr>field_value = Some 1, STATION_NAME = ''A'', STN_ID = 1, coordinates = [0, 0]\<rparr>] 4
      = Inr 25
   \<and> missing_data_percentage
        [\<lparr>field_value = None, STATION_NAME = ''A'', STN_ID = 1, coordinates = [0, 0]\<rparr>,
         \<lparr>field_value = Some 1, STATION_NAME = ''A'', STN_ID = 1, coordinates = [0, 0]\<rparr>] 0
      = Inl ZeroDivisionError"
proof -
  have "round2 (fl (fl (1 / 4) * 100)) = 25"
    by code_simp
  then show ?thesis
    using percentage_divides_first
        [of "[\<lparr>field_value = None, STATION_NAME = ''A'', STN_ID = 1, coordinates = [0, 0]\<rparr>,
              \<lparr>field_value = Some 1, STATION_NAME = ''A'', STN_ID = 1, coordinates = [0, 0]\<rparr>]" 4]
      percentage_divides_first
        [of "[\<lparr>field_value = None, STATION_NAME = ''A'', STN_ID = 1, coordinates = [0, 0]\<rparr>,
              \<lparr>field_value = Some 1, STATION_NAME = ''A'', STN_ID = 1, coordinates = [0, 0]\<rparr>]" 0]
    by simp
qed

text \<open>
  The claim as it was stated multiplies first: \<^verbatim>\<open>round(100 * missing_count /
  total_record_count, 2)\<close>. With 23 missing values among 160 records, \<open>100 * 23 / 160\<close> is
  14.375 exactly, which rounds to 14.38, in exact arithmetic and in doubles alike. The
  code divides first: the double nearest to \<open>23 / 160\<close> times 100 is the double just below
  14.375, and the percentage is 14.37.
\<close>

theorem percentage_multiplies_first_counterexample:
  "missing_data_percentage
     (replicate 23 \<lparr>field_value = None, STATION_NAME = ''A'', STN_ID = 1, coordinates = [0, 0]\<rparr>
      @ replicate 137
         \<lparr>field_value = Some 1, STATION_NAME = ''A'', STN_ID = 1, coordinates = [0, 0]\<rparr>)
     160
    = Inr (1437 / 100)
   \<and> round2 (100 * 23 / 160) = 1438 / 100
   \<and> round2 (fl (of_int (100 * 23) / of_int 160)) = 1438 / 100"
  by code_simp

subsection \<open>Statistics\<close>

text \<open>
  Claim C4, as the code has it. When the values that are not missing, \<open>values\<close>, are not
  empty, the report has their number as total, and for each calculation asked for: as mean
  \<^verbatim>\<open>round(sum(values) / len(values), 2)\<close> computed in doubles, which is a multiple of
  \<open>1/100\<close> at most \<open>1/200\<close> and \<open>(1 + u)\<^sup>n\<^sup>+\<^sup>1 - 1\<close> times the mean magnitude away from the
  arithmetic mean of the \<open>n\<close> values (\<open>u\<close> is \<^verbatim>\<open>2 ** -53\<close>); as max and min their greatest
  and least element; and as counts the numbers of values greater than, less than and equal
  to the threshold. A calculation not asked for is \<open>None\<close>. On \<^verbatim>\<open>[1.0, 2.0, None, 3.0]\<close>
  with the threshold 2.0 and all six calculations the report has total 3, mean 2.0, max
  3.0, min 1.0 and the three counts 1.
\<close>

theorem statistics_of_values:
  assumes "values = map the (filter (\<lambda>value. value \<noteq> None) values_results_list)"
    and "values \<noteq> []"
  shows "total_stat (calculate_statistics calculations values_results_list threshold)
           = length values
    \<and> threshold_stat (calculate_statistics calculations values_results_list threshold)
           = threshold
    \<and> mean_stat (calculate_statistics calculations values_results_list threshold)
           = (if requested ''mean'' calculations
              then Some (round2 (fl (float_sum values / of_nat (length values)))) else None)
    \<and> \<bar>round2 (fl (float_sum values / of_nat (length values)))
          - sum_list values / of_nat (length values)\<bar>
         \<le> 1 / 200 + ((1 + unit_roundoff) ^ Suc (length values) - 1)
                        * (sum_list (map abs values) / of_nat (length values))
    \<and> (\<exists>k::int. round2 (fl (float_sum values / of_nat (length values))) = of_int k / 100)
    \<and> max_stat (calculate_statistics calculations values_results_list threshold)
           = (if requested ''max'' calculations then Some (Max (set values)) else None)
    \<and> min_stat (calculate_statistics calculations values_results_list threshold)
           = (if requested ''min'' calculations then Some (Min (set values)) else None)
    \<and> count_above (calculate_statistics calculations values_results_list threshold)
           = (if requested ''count above threshold'' calculations
              then Some (length (filter (\<lambda>value. value > threshold) values)) else None)
    \<and> count_below (calculate_statistics calculations values_results_list threshold)
           = (if requested ''count below threshold'' calculations
              then Some (length (filter (\<lambda>value. value < threshold) values)) else None)
    \<and> count_equal (calculate_statistics calculations values_results_list threshold)
           = (if requested ''count equal threshold'' calculations
              then Some (length (filter (\<lambda>value. value = threshold) values)) else None)
    \<and> calculate_statistics
         (CalcList [''mean'', ''max'', ''min'', ''count above threshold'',
            ''count below threshold'', ''count equal threshold''])
         [Some 1, Some 2, None, Some 3] 2
        = \<lparr>total_stat = 3, mean_stat = Some 2, max_stat = Some 3, min_stat = Some 1,
           threshold_stat = 2, count_above = Some 1, count_below = Some 1,
           count_equal = Some 1\<rparr>"
proof -
  from assms(2) obtain first others where split: "values = first # others"
    by (cases "values") auto
  have unfold: "calculate_statistics calculations values_results_list threshold =
      \<lparr>total_stat = length values,
       mean_stat = (if requested ''mean'' calculations
          then Some (round2 (fl (float_sum values / of_nat (length values)))) else None),
       max_stat = (if requested ''max'' calculations then Some (py_max first others) else None),
       min_stat = (if requested ''min'' calculations then Some (py_min first others) else None),
       threshold_stat = threshold,
       count_above = (if requested ''count above threshold'' calculations
          then Some (py_sum (map (\<lambda>value. 1)
                 (filter (\<lambda>value. value > threshold) values))) else None),
       count_below = (if requested ''count below threshold'' calculations
          then Some (py_sum (map (\<lambda>value. 1)
                 (filter (\<lambda>value. value < threshold) values))) else None),
       count_equal = (if requested ''count equal threshold'' calculations
          then Some (py_sum (map (\<lambda>value. 1)
                 (filter (\<lambda>value. value = threshold) values))) else None)\<rparr>"
    unfolding calculate_statistics_def assms(1) [symmetric] Let_def
    by (simp only: split list.case)
  have mx: "py_max first others = Max (set values)"
    by (simp only: py_max_Max split)
  have mn: "py_min first others = Min (set values)"
    by (simp only: py_min_Min split)
  have cnt: "py_sum (map (\<lambda>value. 1::nat) (filter P values)) = length (filter P values)" for P
    by (rule py_sum_ones)
  show ?thesis
    unfolding unfold mx mn cnt
    using float_mean_near [OF assms(2)]
      round2_hundredths [of "fl (float_sum values / of_nat (length values))"]
      statistics_example
    by simp
qed

theorem statistics_of_values_witness:
  "[1, 2, 3] = map the (filter (\<lambda>value. value \<noteq> None) [Some (1::rat), Some 2, None, Some 3])
   \<and> [1, 2, 3 :: rat] \<noteq> []
   \<and> total_stat (calculate_statistics (CalcStr ''mean,min'') [Some 1, Some 2, None, Some 3] 2)
       = 3
   \<and> mean_stat (calculate_statistics (CalcStr ''mean,min'') [Some 1, Some 2, None, Some 3] 2)
       = Some 2
   \<and> max_stat (calculate_statistics (CalcStr ''mean,min'') [Some 1, Some 2, None, Some 3] 2)
       = None
   \<and> min_stat (calculate_statistics (CalcStr ''mean,min'') [Some 1, Some 2, None, Some 3] 2)
       = Some 1"
proof -
  have h1: "[1, 2, 3] = map the (filter (\<lambda>value. value \<noteq> None) [Some (1::rat), Some 2, None, Some 3])"
    by simp
  have h2: "[1, 2, 3 :: rat] \<noteq> []"
    by simp
  have mean: "round2 (fl (float_sum [1, 2, 3] / of_nat (length [1, 2, 3 :: rat]))) = 2"
    by code_simp
  show ?thesis
    using h1 h2 mean statistics_of_values [OF h1 h2, of "CalcStr ''mean,min''" 2]
    by simp
qed

text \<open>
  The claim as it was stated gives the arithmetic mean rounded to two decimals. The mean
  of 3.0 and thirty-nine times 0.0 is 0.075, which rounds to 0.08. The code divides the sum
  3.0 by 40 in doubles, which gives the double just below 0.075, and reports 0.07.
\<close>

theorem statistics_mean_counterexample:
  "mean_stat (calculate_statistics (CalcList [''mean'']) (Some 3 # replicate 39 (Some 0)) 0)
     = Some (7 / 100)
   \<and> map the (filter (\<lambda>value. value \<noteq> None) (Some 3 # replicate 39 (Some (0::rat))))
     = 3 # replicate 39 0
   \<and> sum_list (3 # replicate 39 (0::rat)) / of_nat (length (3 # replicate 39 (0::rat)))
     = 75 / 1000
   \<and> round2 (75 / 1000) = 8 / 100"
  by code_simp

text \<open>
  Claim C5. When no value of the sequence is left after the missing ones are dropped,
  as for a sequence of missing entries only, the report has the total 0 and \<open>None\<close> in
  every numeric field, whatever was asked for.
\<close>

theorem statistics_of_no_values:
  assumes "filter (\<lambda>value. value \<noteq> None) values_results_list = []"
  shows "calculate_statistics calculations values_results_list threshold
     = \<lparr>total_stat = 0, mean_stat = None, max_stat = None, min_stat = None,
        threshold_stat = threshold,
        count_above = None, count_below = None, count_equal = None\<rparr>
    \<and> calculate_statistics calculations (replicate n None) threshold
     = \<lparr>total_stat = 0, mean_stat = None, max_stat = None, min_stat = None,
        threshold_stat = threshold,
        count_above = None, count_below = None, count_equal = None\<rparr>"
proof -
  have "filter (\<lambda>value. value \<noteq> None) (replicate n (None :: rat option)) = []"
    by simp
  with assms show ?thesis
    by (simp add: calculate_statistics_def)
qed

theorem statistics_of_no_values_witness:
  "filter (\<lambda>value. value \<noteq> None) [None, None :: rat option] = []
   \<and> calculate_statistics (CalcList [''mean'', ''max'', ''count equal threshold'']) [None, None] 0
     = \<lparr>total_stat = 0, mean_stat = None, max_stat = None, min_stat = None,
        threshold_stat = 0,
        count_above = None, count_below = None, count_equal = None\<rparr>
   \<and> filter (\<lambda>value. value \<noteq> None) ([] :: rat option list) = []
   \<and> total_stat (calculate_statistics (CalcStr ''mean'') [] 0) = 0"
proof -
  have h1: "filter (\<lambda>value. value \<noteq> None) [None, None :: rat option] = []"
    by simp
  have h2: "filter (\<lambda>value. value \<noteq> None) ([] :: rat option list) = []"
    by simp
  show ?thesis
    using h1 h2
      statistics_of_no_values
        [OF h1, of "CalcList [''mean'', ''max'', ''count equal threshold'']" 0 0]
      statistics_of_no_values [OF h2, of "CalcStr ''mean''" 0 0]
    by simp
qed

subsection \<open>Unique stations\<close>

text \<open>
  Claim C9. The step that removes duplicate station tuples is never reached: for every
  search result and every input \<^verbatim>\<open>climate_stats\<close> ends with the exception of its
  missing-data part (\<^verbatim>\<open>ZeroDivisionError\<close> for a count of 0, else the \<^verbatim>\<open>TypeError\<close> of
  the call of \<^verbatim>\<open>calculate_consecutive_missing_days\<close> on an integer) and produces no
  list of stations. So it does on the records with the tuples \<^verbatim>\<open>(A, 1, [0, 0])\<close>,
  \<^verbatim>\<open>(B, 2, [1, 1])\<close>, \<^verbatim>\<open>(A, 1, [0, 0])\<close>, on which the loop of the step, had it run,
  would have given the two tuples \<^verbatim>\<open>(A, 1, [0, 0])\<close>, \<^verbatim>\<open>(B, 2, [1, 1])\<close> in that order.
\<close>

theorem stations_step_not_reached:
  "climate_stats es_hits es_count calculations threshold missing_data_option
     = Inl (if es_count = 0 then ZeroDivisionError else TypeError)
   \<and> climate_stats
       [\<lparr>field_value = Some 1, STATION_NAME = ''A'', STN_ID = 1, coordinates = [0, 0]\<rparr>,
        \<lparr>field_value = None, STATION_NAME = ''B'', STN_ID = 2, coordinates = [1, 1]\<rparr>,
        \<lparr>field_value = Some 2, STATION_NAME = ''A'', STN_ID = 1, coordinates = [0, 0]\<rparr>]
       3 (CalcList [''max'']) 0 PyNone
     = Inl TypeError
   \<and> unique_stations_loop (map station_info
       [\<lparr>field_value = Some 1, STATION_NAME = ''A'', STN_ID = 1, coordinates = [0, 0]\<rparr>,
        \<lparr>field_value = None, STATION_NAME = ''B'', STN_ID = 2, coordinates = [1, 1]\<rparr>,
        \<lparr>field_value = Some 2, STATION_NAME = ''A'', STN_ID = 1, coordinates = [0, 0]\<rparr>]) []
     = [(''A'', 1, [0, 0]), (''B'', 2, [1, 1])]"
  by (simp add: climate_stats_def missing_data_handling_def missing_data_percentage_def
      py_truediv_def valuesResultsList_def station_info_def)

end
